theory Spec2Isabelle
  imports Main
begin

section \<open>JavaScript values\<close>

text \<open>
  The console (\<^verbatim>\<open>frontend/src/App.js\<close>) keeps whatever the backend sends: the bodies of
  the collection fetches and the \<^verbatim>\<open>data\<close> field of a push message are stored as they
  arrive. They are modelled as JavaScript values. Numbers are restricted to integers (no
  handler reads a number of a push message); an object is the list of its own properties.
\<close>

datatype jsval =
    JUndefined
  | JNull
  | JBool bool
  | JNum int
  | JStr string
  | JArr "jsval list"
  | JObj "(string \<times> jsval) list"

datatype js_error = TypeError | SyntaxError

text \<open>
  Property access \<^verbatim>\<open>v.k\<close>: a TypeError on \<^verbatim>\<open>undefined\<close> and \<^verbatim>\<open>null\<close>, the own
  property of an object, \<^verbatim>\<open>length\<close> of a string or an array, and \<^verbatim>\<open>undefined\<close>
  otherwise (the keys read by the console are \<^verbatim>\<open>type\<close>, \<^verbatim>\<open>data\<close> and
  \<^verbatim>\<open>is_running\<close>, none of which is inherited from a prototype).
\<close>

fun get_prop :: "jsval \<Rightarrow> string \<Rightarrow> js_error + jsval" where
  "get_prop JUndefined k = Inl TypeError"
| "get_prop JNull k = Inl TypeError"
| "get_prop (JObj kvs) k = (case map_of kvs k of None \<Rightarrow> Inr JUndefined | Some v \<Rightarrow> Inr v)"
| "get_prop (JStr s) k = (if k = ''length'' then Inr (JNum (int (length s))) else Inr JUndefined)"
| "get_prop (JArr xs) k = (if k = ''length'' then Inr (JNum (int (length xs))) else Inr JUndefined)"
| "get_prop (JBool b) k = Inr JUndefined"
| "get_prop (JNum n) k = Inr JUndefined"

text \<open>Truthiness, as \<^verbatim>\<open>!v\<close>, \<^verbatim>\<open>v || d\<close> and \<^verbatim>\<open>c ? a : b\<close> read it.\<close>

fun truthy :: "jsval \<Rightarrow> bool" where
  "truthy JUndefined = False"
| "truthy JNull = False"
| "truthy (JBool b) = b"
| "truthy (JNum n) = (n \<noteq> 0)"
| "truthy (JStr s) = (s \<noteq> [])"
| "truthy (JArr xs) = True"
| "truthy (JObj kvs) = True"

text \<open>
  A JavaScript number as \<^verbatim>\<open>parseInt\<close> returns it: NaN, a finite double with an integer
  value, the negative zero, or an infinity.
\<close>

datatype js_number = NaN | Num int | NegZero | PosInfinity | NegInfinity

text \<open>
  A JavaScript string as \<^verbatim>\<open>parseInt\<close> reads it: its UTF-16 code units, each a number
  below \<open>65536\<close>. \<open>utf16\<close> gives the code units of an ASCII text.
\<close>

type_synonym code_unit = nat
type_synonym js_string = "code_unit list"

definition utf16 :: "string \<Rightarrow> js_string" where
  "utf16 s = map of_char s"

section \<open>parseInt\<close>

text \<open>
  \<^verbatim>\<open>parseInt(s)\<close> with no radix: leading white space is skipped (the WhiteSpace and
  LineTerminator code points of ECMAScript), then an optional sign, then an optional
  \<^verbatim>\<open>0x\<close>/\<^verbatim>\<open>0X\<close> prefix (radix 16), then the longest prefix of digits of the radix; NaN
  when there is no digit. The integer the digits denote is rounded to the nearest
  double, ties to even, and is an infinity from \<open>2^1024 - 2^970\<close> on. (Beyond twenty
  significant digits ECMAScript allows an implementation to read further digits as 0;
  the model rounds the exact value.)
\<close>

definition is_white_space :: "code_unit \<Rightarrow> bool" where
  "is_white_space c =
     (c \<in> set [0x09, 0x0A, 0x0B, 0x0C, 0x0D, 0x20, 0xA0, 0x1680, 0x2028, 0x2029, 0x202F,
               0x205F, 0x3000, 0xFEFF]
      \<or> (0x2000 \<le> c \<and> c \<le> 0x200A))"

definition digit_value :: "code_unit \<Rightarrow> nat option" where
  "digit_value c =
     (if 48 \<le> c \<and> c \<le> 57 then Some (c - 48)
      else if 97 \<le> c \<and> c \<le> 122 then Some (c - 87)
      else if 65 \<le> c \<and> c \<le> 90 then Some (c - 55)
      else None)"

definition is_digit_of :: "nat \<Rightarrow> code_unit \<Rightarrow> bool" where
  "is_digit_of radix c = (case digit_value c of None \<Rightarrow> False | Some d \<Rightarrow> d < radix)"

definition digits_value :: "nat \<Rightarrow> js_string \<Rightarrow> nat" where
  "digits_value radix ds =
     foldl (\<lambda>acc c. acc * radix + (case digit_value c of None \<Rightarrow> 0 | Some d \<Rightarrow> d)) 0 ds"

text \<open>The number of binary digits of a natural number.\<close>

fun bit_length :: "nat \<Rightarrow> nat" where
  "bit_length m = (if m = 0 then 0 else Suc (bit_length (m div 2)))"

declare bit_length.simps [simp del]

text \<open>
  The double nearest to a natural number, as a natural number; \<open>None\<close> when it is
  beyond the largest double. Below \<open>2^53\<close> every integer is a double. Above, the 53
  leading bits \<open>q\<close> are kept, and rounded up when the rest \<open>r\<close> is more than half a unit
  of the last kept bit, or exactly half with \<open>q\<close> odd.
\<close>

definition round_to_double :: "nat \<Rightarrow> nat option" where
  "round_to_double m =
     (if m < 2 ^ 53 then Some m
      else
        (let e = bit_length m - 53;
             q = m div 2 ^ e;
             r = m mod 2 ^ e;
             half = 2 ^ (e - 1);
             q' = (if half < r \<or> (r = half \<and> odd q) then q + 1 else q);
             v = q' * 2 ^ e
         in if 2 ^ 1024 \<le> v then None else Some v))"

definition to_number :: "int \<Rightarrow> nat \<Rightarrow> js_number" where
  "to_number sign m =
     (if m = 0 then (if sign < 0 then NegZero else Num 0)
      else case round_to_double m of
             None \<Rightarrow> if sign < 0 then NegInfinity else PosInfinity
           | Some v \<Rightarrow> Num (sign * int v))"

definition parse_digits :: "nat \<Rightarrow> js_string \<Rightarrow> int \<Rightarrow> js_number" where
  "parse_digits radix s sign =
     (let z = takeWhile (is_digit_of radix) s
      in if z = [] then NaN else to_number sign (digits_value radix z))"

definition strip_prefix_0x :: "js_string \<Rightarrow> nat \<times> js_string" where
  "strip_prefix_0x s =
     (case s of
        c0 # c1 # rest \<Rightarrow>
          (if c0 = 0x30 \<and> (c1 = 0x78 \<or> c1 = 0x58) then (16, rest) else (10, s))
      | _ \<Rightarrow> (10, s))"

definition parseInt :: "js_string \<Rightarrow> js_number" where
  "parseInt input =
     (let s = dropWhile is_white_space input;
          sign = (case s of c # _ \<Rightarrow> if c = 0x2D then - 1 else 1 | [] \<Rightarrow> (1::int));
          s1 = (case s of c # rest \<Rightarrow> if c = 0x2D \<or> c = 0x2B then rest else s | [] \<Rightarrow> s);
          (radix, s2) = strip_prefix_0x s1
      in parse_digits radix s2 sign)"

section \<open>The Gateway and the state of the console\<close>

text \<open>
  The typed bodies follow the Gateway's contract: \<^verbatim>\<open>GET /bls/visa-info\<close>,
  \<^verbatim>\<open>POST /bls/validate-category\<close> and \<^verbatim>\<open>POST /bls/book-appointment\<close>.
\<close>

record visa_info =
  locations :: "string list"
  categories_by_location :: "(string \<times> string list) list"
  category_requirements :: "(string \<times> string) list"
  visa_types :: "string list"
  visa_sub_types :: "string list"
  schengen_history_options :: "(string \<times> string) list"

record booking_form =
  location :: string
  visa_type :: string
  visa_sub_type :: string
  category :: string
  appointment_for :: string
  number_of_members :: js_number
  schengen_visa_history :: string
  has_premium_lounge :: bool
  family_group_eligible :: bool
  form_notes :: string

record verdict =
  is_valid :: bool
  validation_message :: string
  recommended_categories :: "string list"

record validate_request =
  vr_location :: string
  vr_category :: string
  vr_schengen_visa_history :: string

record book_reply =
  booking_id :: string

text \<open>
  An awaited axios call either resolves with the response body or rejects; a rejection
  carries \<^verbatim>\<open>error.response?.data?.detail\<close> when the backend sent one.
\<close>

datatype 'a response = Resolved 'a | Rejected "string option"

record gateway =
  get_applicants :: "jsval response"
  get_credentials :: "jsval response"
  get_status :: "jsval response"
  get_bookings :: "jsval response"
  post_validate_category :: "validate_request \<Rightarrow> verdict response"
  post_book_appointment :: "booking_form \<Rightarrow> book_reply response"

text \<open>The calls made to the Gateway, in the order they are issued (paths below \<^verbatim>\<open>API\<close>).\<close>

datatype request =
    Get string
  | PostValidateCategory validate_request
  | PostBookAppointment booking_form

datatype console_entry = ConsoleLog string string | ConsoleError string

datatype ready_state = CONNECTING | OPEN | CLOSED

record toast =
  toast_text :: string
  toast_type :: string

text \<open>
  The state of \<^verbatim>\<open>App\<close> (\<open>activeTab\<close> to \<open>message\<close>) and of \<^verbatim>\<open>BLSAutomation\<close>
  (\<open>visaInfo\<close> to \<open>showValidationModal\<close>), the socket, and what the console has done to
  the outside: the Gateway calls issued, the console lines, the number of
  \<^verbatim>\<open>setTimeout\<close> timers started by \<^verbatim>\<open>showMessage\<close>.
\<close>

record world =
  activeTab :: string
  applicants :: jsval
  credentials :: jsval
  systemStatus :: jsval
  bookings :: jsval
  loading :: bool
  message :: toast
  visaInfo :: "visa_info option"
  bookingForm :: booking_form
  categoryValidation :: verdict
  showValidationModal :: bool
  readyState :: ready_state
  requests :: "request list"
  console :: "console_entry list"
  timeouts :: nat

definition initial_bookingForm :: booking_form where
  "initial_bookingForm =
     \<lparr>location = ''Oran'', visa_type = ''National Visa'', visa_sub_type = ''Tourism'',
      category = ''ORAN 1'', appointment_for = ''Individual'', number_of_members = Num 1,
      schengen_visa_history = ''never'', has_premium_lounge = False,
      family_group_eligible = False, form_notes = ''''\<rparr>"

definition initial_world :: world where
  "initial_world =
     \<lparr>activeTab = ''applicants'', applicants = JArr [], credentials = JArr [],
      systemStatus = JObj [(''is_running'', JBool False), (''current_task'', JNull)],
      bookings = JArr [], loading = False,
      message = \<lparr>toast_text = '''', toast_type = ''''\<rparr>,
      visaInfo = None, bookingForm = initial_bookingForm,
      categoryValidation =
        \<lparr>is_valid = True, validation_message = '''', recommended_categories = []\<rparr>,
      showValidationModal = False, readyState = CONNECTING,
      requests = [], console = [], timeouts = 0\<rparr>"

section \<open>App: notifications and collection fetches\<close>

definition showMessage :: "string \<Rightarrow> string \<Rightarrow> world \<Rightarrow> world" where
  "showMessage text_arg type_arg w =
     w\<lparr>message := \<lparr>toast_text = text_arg, toast_type = type_arg\<rparr>,
       timeouts := Suc (timeouts w)\<rparr>"

definition issue :: "request \<Rightarrow> world \<Rightarrow> world" where
  "issue r w = w\<lparr>requests := requests w @ [r]\<rparr>"

definition console_error :: "string \<Rightarrow> world \<Rightarrow> world" where
  "console_error label w = w\<lparr>console := console w @ [ConsoleError label]\<rparr>"

definition fetchApplicants :: "gateway \<Rightarrow> world \<Rightarrow> world" where
  "fetchApplicants gw w =
     (let w1 = issue (Get ''/applicants'') w in
      case get_applicants gw of
        Resolved d \<Rightarrow> w1\<lparr>applicants := d\<rparr>
      | Rejected e \<Rightarrow>
          showMessage ''Error fetching applicants'' ''error''
            (console_error ''Error fetching applicants:'' w1))"

definition fetchCredentials :: "gateway \<Rightarrow> world \<Rightarrow> world" where
  "fetchCredentials gw w =
     (let w1 = issue (Get ''/credentials'') w in
      case get_credentials gw of
        Resolved d \<Rightarrow> w1\<lparr>credentials := d\<rparr>
      | Rejected e \<Rightarrow>
          showMessage ''Error fetching credentials'' ''error''
            (console_error ''Error fetching credentials:'' w1))"

definition fetchSystemStatus :: "gateway \<Rightarrow> world \<Rightarrow> world" where
  "fetchSystemStatus gw w =
     (let w1 = issue (Get ''/bls/status'') w in
      case get_status gw of
        Resolved d \<Rightarrow> w1\<lparr>systemStatus := d\<rparr>
      | Rejected e \<Rightarrow> console_error ''Error fetching system status:'' w1)"

definition fetchBookings :: "gateway \<Rightarrow> world \<Rightarrow> world" where
  "fetchBookings gw w =
     (let w1 = issue (Get ''/bls/bookings'') w in
      case get_bookings gw of
        Resolved d \<Rightarrow> w1\<lparr>bookings := d\<rparr>
      | Rejected e \<Rightarrow> console_error ''Error fetching bookings:'' w1)"

section \<open>App: the push channel\<close>

text \<open>
  \<^verbatim>\<open>ws.onmessage\<close>. \<^verbatim>\<open>JSON.parse\<close> is a parameter: \<open>None\<close> is the SyntaxError it throws
  on a payload that is not JSON. \<open>onmessage_try\<close> is the body of the \<^verbatim>\<open>try\<close> block,
  \<open>onmessage\<close> the handler with its \<^verbatim>\<open>catch\<close>, which logs the frame. The handler never
  calls \<^verbatim>\<open>ws.close()\<close>; only the cleanup of the effect does.
\<close>

definition onmessage_try ::
  "(string \<Rightarrow> jsval option) \<Rightarrow> gateway \<Rightarrow> string \<Rightarrow> world \<Rightarrow> js_error + world" where
  "onmessage_try JSON_parse gw event_data w =
     (case JSON_parse event_data of
        None \<Rightarrow> Inl SyntaxError
      | Some d \<Rightarrow>
          (case get_prop d ''type'' of
             Inl e \<Rightarrow> Inl e
           | Inr ty \<Rightarrow>
               if ty = JStr ''applicant_created'' \<or> ty = JStr ''applicant_updated''
               then Inr (fetchApplicants gw w)
               else if ty = JStr ''credential_created'' \<or> ty = JStr ''credential_updated''
               then Inr (fetchCredentials gw w)
               else if ty = JStr ''system_status'' \<or> ty = JStr ''system_started''
                       \<or> ty = JStr ''system_stopped''
               then (case get_prop d ''data'' of
                       Inl e \<Rightarrow> Inl e
                     | Inr v \<Rightarrow> Inr (w\<lparr>systemStatus := v\<rparr>))
               else if ty = JStr ''booking_completed''
               then Inr (showMessage ''Booking completed successfully!'' ''success''
                           (fetchBookings gw w))
               else Inr w))"

definition onmessage ::
  "(string \<Rightarrow> jsval option) \<Rightarrow> gateway \<Rightarrow> string \<Rightarrow> world \<Rightarrow> js_error + world" where
  "onmessage JSON_parse gw event_data w =
     (case onmessage_try JSON_parse gw event_data w of
        Inl e \<Rightarrow>
          Inr (w\<lparr>console := console w @ [ConsoleLog ''WebSocket message received:'' event_data]\<rparr>)
      | Inr w' \<Rightarrow> Inr w')"

definition ws_cleanup :: "world \<Rightarrow> world" where
  "ws_cleanup w = w\<lparr>readyState := CLOSED\<rparr>"

text \<open>The event types the handler compares \<^verbatim>\<open>data.type\<close> with.\<close>

definition recognized_types :: "string list" where
  "recognized_types =
     [''applicant_created'', ''applicant_updated'', ''credential_created'',
      ''credential_updated'', ''system_status'', ''system_started'', ''system_stopped'',
      ''booking_completed'']"

section \<open>BLSAutomation: the booking draft\<close>

text \<open>
  \<^verbatim>\<open>validateCategory\<close> reads \<^verbatim>\<open>bookingForm.location\<close> from the render it was created
  in, that is from the form before the handler that calls it has changed anything; the
  form of that render is its first argument.
\<close>

definition validateCategory ::
  "gateway \<Rightarrow> booking_form \<Rightarrow> string \<Rightarrow> string \<Rightarrow> world \<Rightarrow> world" where
  "validateCategory gw rendered_form category_arg schengenHistory w =
     (let req = \<lparr>vr_location = location rendered_form, vr_category = category_arg,
                 vr_schengen_visa_history = schengenHistory\<rparr>;
          w1 = issue (PostValidateCategory req) w
      in case post_validate_category gw req of
           Resolved v \<Rightarrow>
             (let w2 = w1\<lparr>categoryValidation := v\<rparr>
              in if \<not> is_valid v then showMessage (validation_message v) ''error'' w2 else w2)
         | Rejected e \<Rightarrow> console_error ''Error validating category:'' w1)"

text \<open>
  \<^verbatim>\<open>visaInfo.categories_by_location[location] || []\<close>, the first line of
  \<^verbatim>\<open>handleLocationChange\<close>: a location that is not a key has no categories.
\<close>

definition location_categories :: "visa_info \<Rightarrow> string \<Rightarrow> string list" where
  "location_categories vi location_arg =
     (case map_of (categories_by_location vi) location_arg of None \<Rightarrow> [] | Some cs \<Rightarrow> cs)"

definition handleLocationChange :: "gateway \<Rightarrow> string \<Rightarrow> world \<Rightarrow> world" where
  "handleLocationChange gw location_arg w =
     (case visaInfo w of
        None \<Rightarrow> w
      | Some vi \<Rightarrow>
          (let categories = location_categories vi location_arg;
               newCategory =
                 (case categories of
                    [] \<Rightarrow> ''ORAN 1''
                  | c # _ \<Rightarrow> if c \<noteq> [] then c else ''ORAN 1'');
               w1 = w\<lparr>bookingForm :=
                        (bookingForm w)\<lparr>location := location_arg, category := newCategory\<rparr>\<rparr>
           in validateCategory gw (bookingForm w) newCategory
                (schengen_visa_history (bookingForm w)) w1))"

definition handleSchengenHistoryChange :: "gateway \<Rightarrow> string \<Rightarrow> world \<Rightarrow> world" where
  "handleSchengenHistoryChange gw history w =
     validateCategory gw (bookingForm w) (category (bookingForm w)) history
       (w\<lparr>bookingForm := (bookingForm w)\<lparr>schengen_visa_history := history\<rparr>\<rparr>)"

definition handleCategoryChange :: "gateway \<Rightarrow> string \<Rightarrow> world \<Rightarrow> world" where
  "handleCategoryChange gw category_arg w =
     validateCategory gw (bookingForm w) category_arg (schengen_visa_history (bookingForm w))
       (w\<lparr>bookingForm := (bookingForm w)\<lparr>category := category_arg\<rparr>\<rparr>)"

text \<open>
  The \<^verbatim>\<open>onChange\<close> of the "Number of Members" input, on the code units of
  \<^verbatim>\<open>e.target.value\<close>; the input is rendered only while
  \<^verbatim>\<open>appointment_for === 'Family'\<close>.
\<close>

definition number_of_members_onChange :: "js_string \<Rightarrow> world \<Rightarrow> world" where
  "number_of_members_onChange target_value w =
     (if appointment_for (bookingForm w) = ''Family''
      then w\<lparr>bookingForm := (bookingForm w)\<lparr>number_of_members := parseInt target_value\<rparr>\<rparr>
      else w)"

definition appointment_for_onChange :: "string \<Rightarrow> world \<Rightarrow> world" where
  "appointment_for_onChange target_value w =
     w\<lparr>bookingForm := (bookingForm w)\<lparr>appointment_for := target_value\<rparr>\<rparr>"

section \<open>BLSAutomation: submission\<close>

definition handleBookAppointment :: "gateway \<Rightarrow> world \<Rightarrow> world" where
  "handleBookAppointment gw w =
     (if \<not> is_valid (categoryValidation w) then w\<lparr>showValidationModal := True\<rparr>
      else
        (let w1 = issue (PostBookAppointment (bookingForm w)) (w\<lparr>loading := True\<rparr>);
             w2 =
               (case post_book_appointment gw (bookingForm w) of
                  Resolved r \<Rightarrow>
                    showMessage (''Appointment booking completed! ID: '' @ booking_id r)
                      ''success'' w1
                | Rejected detail \<Rightarrow>
                    (let errorMessage =
                           (case detail of
                              None \<Rightarrow> ''Error booking appointment''
                            | Some s \<Rightarrow> if s \<noteq> [] then s else ''Error booking appointment'')
                     in console_error ''Error booking appointment:''
                          (showMessage errorMessage ''error'' w1)))
         in w2\<lparr>loading := False\<rparr>))"

text \<open>
  The "Proceed Anyway" button of the validation modal (rendered while
  \<open>showValidationModal\<close>): it closes the modal and calls \<^verbatim>\<open>handleBookAppointment\<close>
  with a stub event.
\<close>

definition proceed_anyway_onClick :: "gateway \<Rightarrow> world \<Rightarrow> world" where
  "proceed_anyway_onClick gw w =
     (if showValidationModal w
      then handleBookAppointment gw (w\<lparr>showValidationModal := False\<rparr>)
      else w)"

definition review_selection_onClick :: "world \<Rightarrow> world" where
  "review_selection_onClick w = (if showValidationModal w then w\<lparr>showValidationModal := False\<rparr> else w)"

text \<open>
  The \<^verbatim>\<open>disabled\<close> attribute of the "Book Appointment" submit button,
  \<^verbatim>\<open>loading || !systemStatus.is_running\<close>.
\<close>

definition book_button_disabled :: "world \<Rightarrow> js_error + bool" where
  "book_button_disabled w =
     (if loading w then Inr True
      else case get_prop (systemStatus w) ''is_running'' of
             Inl e \<Rightarrow> Inl e
           | Inr v \<Rightarrow> Inr (\<not> truthy v))"

text \<open>
  Submitting the booking form (a click on its submit button, or Enter in one of its
  fields). The form exists on the automation tab once the visa information is loaded;
  a disabled submit button can neither be clicked nor submit the form implicitly, and a
  render that throws leaves no form.
\<close>

definition booking_form_submit :: "gateway \<Rightarrow> world \<Rightarrow> world" where
  "booking_form_submit gw w =
     (if activeTab w = ''automation'' \<and> visaInfo w \<noteq> None
      then (case book_button_disabled w of
              Inr False \<Rightarrow> handleBookAppointment gw w
            | _ \<Rightarrow> w)
      else w)"

section \<open>Concrete inputs\<close>

text \<open>A Gateway whose every call fails, and one whose every call succeeds.\<close>

definition rejecting_gateway :: gateway where
  "rejecting_gateway =
     \<lparr>get_applicants = Rejected None, get_credentials = Rejected None,
      get_status = Rejected None, get_bookings = Rejected None,
      post_validate_category = (\<lambda>r. Rejected None),
      post_book_appointment = (\<lambda>f. Rejected None)\<rparr>"

definition accepting_gateway :: gateway where
  "accepting_gateway =
     \<lparr>get_applicants = Resolved (JArr []), get_credentials = Resolved (JArr []),
      get_status = Resolved (JObj [(''is_running'', JBool True)]),
      get_bookings = Resolved (JArr []),
      post_validate_category =
        (\<lambda>r. Resolved \<lparr>is_valid = True, validation_message = '''', recommended_categories = []\<rparr>),
      post_book_appointment = (\<lambda>f. Resolved \<lparr>booking_id = ''BK-1''\<rparr>)\<rparr>"

text \<open>\<^verbatim>\<open>JSON.parse\<close> on four frames; every other frame is taken as not JSON.\<close>

definition sample_JSON_parse :: "string \<Rightarrow> jsval option" where
  \<open>sample_JSON_parse s =
     (if s = ''{"type":"heartbeat"}'' then Some (JObj [(''type'', JStr ''heartbeat'')])
      else if s = ''{"type":"system_started","data":{"is_running":true}}''
      then Some (JObj [(''type'', JStr ''system_started''),
                       (''data'', JObj [(''is_running'', JBool True)])])
      else if s = ''{"type":"system_stopped","data":{"is_running":false}}''
      then Some (JObj [(''type'', JStr ''system_stopped''),
                       (''data'', JObj [(''is_running'', JBool False)])])
      else if s = ''null'' then Some JNull
      else None)\<close>

text \<open>The initial console after the validator has rejected the selection.\<close>

definition invalid_world :: world where
  "invalid_world =
     initial_world\<lparr>categoryValidation :=
       \<lparr>is_valid = False, validation_message = ''ORAN 1 requires no prior Schengen visa'',
        recommended_categories = [''ORAN 2'']\<rparr>\<rparr>"

text \<open>
  The console on the automation tab with the visa information loaded; the third
  location has no category.
\<close>

definition sample_visa_info :: visa_info where
  "sample_visa_info =
     \<lparr>locations = [''Oran'', ''Alger'', ''Adrar''],
      categories_by_location =
        [(''Oran'', [''ORAN 1'', ''ORAN 2'']), (''Alger'', [''ALG 1'', ''ALG 2'']),
         (''Adrar'', [])],
      category_requirements = [(''ORAN 1'', ''No prior Schengen visa'')],
      visa_types = [''National Visa''], visa_sub_types = [''Tourism''],
      schengen_history_options = [(''never'', ''Never had a Schengen visa'')]\<rparr>"

definition loaded_world :: world where
  "loaded_world = initial_world\<lparr>activeTab := ''automation'', visaInfo := Some sample_visa_info\<rparr>"

text \<open>The decimal numeral of a natural number, as an operator types it.\<close>

definition digit_char :: "nat \<Rightarrow> code_unit" where
  "digit_char d = 48 + d"

fun decimal :: "nat \<Rightarrow> js_string" where
  "decimal n = (if n < 10 then [digit_char n] else decimal (n div 10) @ [digit_char (n mod 10)])"

declare decimal.simps [simp del]

text \<open>The range \<open>[1,10]\<close> of the number of members, as the specification words it.\<close>

definition spec_member_range :: "js_number \<Rightarrow> bool" where
  "spec_member_range x = (case x of Num n \<Rightarrow> 1 \<le> n \<and> n \<le> 10 | _ \<Rightarrow> False)"

text \<open>
  A Gateway whose validator accepts the category \<^verbatim>\<open>ORAN 2\<close> only, and the console it
  leads to by these events, from the loaded console: the push message
  \<^verbatim>\<open>system_started\<close>; the category \<^verbatim>\<open>ORAN 1\<close> is selected (rejected by the
  validator); the form is submitted (the modal opens); the push message
  \<^verbatim>\<open>system_stopped\<close>; the category \<^verbatim>\<open>ORAN 2\<close> is selected (accepted).
\<close>

definition picky_gateway :: gateway where
  "picky_gateway =
     accepting_gateway\<lparr>post_validate_category :=
       (\<lambda>r. if vr_category r = ''ORAN 2''
            then Resolved \<lparr>is_valid = True, validation_message = '''', recommended_categories = []\<rparr>
            else Resolved \<lparr>is_valid = False,
                           validation_message = ''ORAN 1 requires no prior Schengen visa'',
                           recommended_categories = [''ORAN 2'']\<rparr>)\<rparr>"

definition pushed :: "string \<Rightarrow> world \<Rightarrow> world" where
  "pushed event_data w =
     (case onmessage sample_JSON_parse picky_gateway event_data w of Inl e \<Rightarrow> w | Inr w' \<Rightarrow> w')"

definition stopped_modal_world :: world where
  \<open>stopped_modal_world =
     handleCategoryChange picky_gateway ''ORAN 2''
       (pushed ''{"type":"system_stopped","data":{"is_running":false}}''
          (booking_form_submit picky_gateway
             (handleCategoryChange picky_gateway ''ORAN 1''
                (pushed ''{"type":"system_started","data":{"is_running":true}}''
                   loaded_world))))\<close>

section \<open>Submission and the validation verdict\<close>

text \<open>
  C2. With an invalid verdict, \<^verbatim>\<open>handleBookAppointment\<close> makes no Gateway call: it only
  opens the validation modal (the confirmation-required state) and returns.
\<close>

theorem submit_invalid_without_override_no_gateway_call:
  assumes "\<not> is_valid (categoryValidation w)"
  shows "handleBookAppointment gw w = w\<lparr>showValidationModal := True\<rparr>
       \<and> requests (handleBookAppointment gw w) = requests w
       \<and> showValidationModal (handleBookAppointment gw w)"
  using assms by (simp add: handleBookAppointment_def)

theorem submit_invalid_without_override_witness:
  "\<not> is_valid (categoryValidation invalid_world)
   \<and> handleBookAppointment accepting_gateway invalid_world
       = invalid_world\<lparr>showValidationModal := True\<rparr>
   \<and> requests (handleBookAppointment accepting_gateway invalid_world) = []
   \<and> showValidationModal (handleBookAppointment accepting_gateway invalid_world)"
proof -
  have h: "\<not> is_valid (categoryValidation invalid_world)"
    by (simp add: invalid_world_def)
  show ?thesis
    using h submit_invalid_without_override_no_gateway_call [OF h, of accepting_gateway]
    by (simp add: invalid_world_def initial_world_def)
qed

text \<open>
  C1. The override path of the code is the "Proceed Anyway" button. It calls
  \<^verbatim>\<open>handleBookAppointment\<close> again, which tests the same verdict again: on the console
  with an invalid verdict and the modal open, clicking it issues no booking call and
  leaves the modal open, whatever the Gateway would have answered.
\<close>

theorem proceed_anyway_makes_no_booking_call:
  "showValidationModal (invalid_world\<lparr>showValidationModal := True\<rparr>)
   \<and> \<not> is_valid (categoryValidation (invalid_world\<lparr>showValidationModal := True\<rparr>))
   \<and> requests (proceed_anyway_onClick accepting_gateway
                 (invalid_world\<lparr>showValidationModal := True\<rparr>)) = []
   \<and> proceed_anyway_onClick accepting_gateway (invalid_world\<lparr>showValidationModal := True\<rparr>)
       = invalid_world\<lparr>showValidationModal := True\<rparr>"
  by (simp add: proceed_anyway_onClick_def handleBookAppointment_def invalid_world_def
        initial_world_def)

section \<open>Frame lemmas\<close>

lemma bookingForm_validateCategory:
  "bookingForm (validateCategory gw f c h w) = bookingForm w"
  by (simp add: validateCategory_def Let_def issue_def showMessage_def console_error_def
        split: response.splits)

lemma requests_validateCategory:
  "requests (validateCategory gw f c h w)
     = requests w @ [PostValidateCategory
                       \<lparr>vr_location = location f, vr_category = c, vr_schengen_visa_history = h\<rparr>]"
  by (simp add: validateCategory_def Let_def issue_def showMessage_def console_error_def
        split: response.splits)

lemma get_prop_defined:
  assumes "get_prop d k = Inr v"
  shows "\<exists>v'. get_prop d k' = Inr v'"
  using assms by (cases d) (auto split: option.splits)

text \<open>
  A failed collection fetch leaves its collection as it was and is not repeated: the
  request log grows by the one call.
\<close>

lemma fetch_failure_keeps_collections:
  assumes "get_applicants gw = Rejected e1" and "get_credentials gw = Rejected e2"
      and "get_status gw = Rejected e3" and "get_bookings gw = Rejected e4"
  shows "applicants (fetchApplicants gw w) = applicants w"
    and "credentials (fetchCredentials gw w) = credentials w"
    and "systemStatus (fetchSystemStatus gw w) = systemStatus w"
    and "bookings (fetchBookings gw w) = bookings w"
    and "requests (fetchApplicants gw w) = requests w @ [Get ''/applicants'']"
    and "requests (fetchCredentials gw w) = requests w @ [Get ''/credentials'']"
    and "requests (fetchSystemStatus gw w) = requests w @ [Get ''/bls/status'']"
    and "requests (fetchBookings gw w) = requests w @ [Get ''/bls/bookings'']"
  using assms
  by (simp_all add: fetchApplicants_def fetchCredentials_def fetchSystemStatus_def
        fetchBookings_def Let_def issue_def showMessage_def console_error_def)

section \<open>The push channel\<close>

text \<open>
  C5. A push message that parses and whose \<^verbatim>\<open>type\<close> is none of the recognized event
  types raises nothing and changes no collection: the handler returns normally, with the
  world as it was (a message such as \<^verbatim>\<open>null\<close>, on which reading \<^verbatim>\<open>type\<close> throws inside
  the \<^verbatim>\<open>try\<close>, is logged to the console and nothing else). No fetch is issued and no
  notification shown.
\<close>

theorem onmessage_unknown_type_ignored:
  assumes "JSON_parse event_data = Some d"
      and "\<forall>t \<in> set recognized_types. get_prop d ''type'' \<noteq> Inr (JStr t)"
  shows "onmessage JSON_parse gw event_data w
           = Inr (case get_prop d ''type'' of
                    Inl e \<Rightarrow> w\<lparr>console := console w
                                 @ [ConsoleLog ''WebSocket message received:'' event_data]\<rparr>
                  | Inr ty \<Rightarrow> w)
       \<and> (\<forall>w'. onmessage JSON_parse gw event_data w = Inr w' \<longrightarrow>
             applicants w' = applicants w \<and> credentials w' = credentials w
             \<and> bookings w' = bookings w \<and> systemStatus w' = systemStatus w
             \<and> requests w' = requests w \<and> message w' = message w)"
proof (cases "get_prop d ''type''")
  case (Inl e)
  then have "onmessage_try JSON_parse gw event_data w = Inl e"
    using assms(1) by (simp add: onmessage_try_def)
  then show ?thesis using Inl by (auto simp add: onmessage_def)
next
  case (Inr ty)
  then have "\<forall>t \<in> set recognized_types. ty \<noteq> JStr t"
    using assms(2) by auto
  then have "onmessage_try JSON_parse gw event_data w = Inr w"
    using assms(1) Inr by (simp add: onmessage_try_def recognized_types_def)
  then show ?thesis using Inr by (auto simp add: onmessage_def)
qed

theorem onmessage_unknown_type_witness:
  \<open>sample_JSON_parse ''{"type":"heartbeat"}'' = Some (JObj [(''type'', JStr ''heartbeat'')])
   \<and> ''heartbeat'' \<notin> set recognized_types
   \<and> onmessage sample_JSON_parse accepting_gateway ''{"type":"heartbeat"}'' initial_world
       = Inr initial_world\<close>
proof -
  have p: \<open>sample_JSON_parse ''{"type":"heartbeat"}'' = Some (JObj [(''type'', JStr ''heartbeat'')])\<close>
    by (simp add: sample_JSON_parse_def)
  have u: "\<forall>t \<in> set recognized_types.
             get_prop (JObj [(''type'', JStr ''heartbeat'')]) ''type'' \<noteq> Inr (JStr t)"
    by (simp add: recognized_types_def)
  show ?thesis
    using p u onmessage_unknown_type_ignored
            [where JSON_parse = sample_JSON_parse and gw = accepting_gateway
               and w = initial_world, OF p u]
    by (simp add: recognized_types_def)
qed

text \<open>
  C6. A frame that is not JSON is logged and dropped: the handler returns normally, the
  only change is the console line; the socket stays in its state and the four
  collections are untouched.
\<close>

theorem onmessage_malformed_dropped:
  assumes "JSON_parse event_data = None"
  shows "onmessage JSON_parse gw event_data w
           = Inr (w\<lparr>console := console w @ [ConsoleLog ''WebSocket message received:'' event_data]\<rparr>)
       \<and> (\<forall>w'. onmessage JSON_parse gw event_data w = Inr w' \<longrightarrow>
             readyState w' = readyState w \<and> applicants w' = applicants w
             \<and> credentials w' = credentials w \<and> bookings w' = bookings w
             \<and> systemStatus w' = systemStatus w \<and> requests w' = requests w)"
  using assms by (auto simp add: onmessage_def onmessage_try_def)

theorem onmessage_malformed_witness:
  "sample_JSON_parse ''not json'' = None
   \<and> onmessage sample_JSON_parse accepting_gateway ''not json'' (initial_world\<lparr>readyState := OPEN\<rparr>)
       = Inr (initial_world\<lparr>readyState := OPEN,
                console := [ConsoleLog ''WebSocket message received:'' ''not json'']\<rparr>)"
proof -
  have p: "sample_JSON_parse ''not json'' = None"
    by (simp add: sample_JSON_parse_def)
  show ?thesis
    using p onmessage_malformed_dropped
            [where JSON_parse = sample_JSON_parse and gw = accepting_gateway
               and w = "initial_world\<lparr>readyState := OPEN\<rparr>", OF p]
    by (simp add: initial_world_def)
qed

text \<open>
  C7. On \<^verbatim>\<open>system_status\<close>, \<^verbatim>\<open>system_started\<close> and \<^verbatim>\<open>system_stopped\<close> the system
  status becomes the message's \<^verbatim>\<open>data\<close> field as it is (\<^verbatim>\<open>undefined\<close> when the message
  has none), whatever the status was before; nothing else changes.
\<close>

theorem onmessage_system_status_replaced:
  assumes "JSON_parse event_data = Some d"
      and "get_prop d ''type'' = Inr (JStr t)"
      and "t = ''system_status'' \<or> t = ''system_started'' \<or> t = ''system_stopped''"
  shows "\<exists>v. get_prop d ''data'' = Inr v
           \<and> (\<forall>w. onmessage JSON_parse gw event_data w = Inr (w\<lparr>systemStatus := v\<rparr>))"
proof -
  obtain v where v: "get_prop d ''data'' = Inr v"
    using get_prop_defined [OF assms(2)] by blast
  have "onmessage JSON_parse gw event_data w = Inr (w\<lparr>systemStatus := v\<rparr>)" for w
    using assms v by (auto simp add: onmessage_def onmessage_try_def)
  with v show ?thesis by blast
qed

theorem onmessage_system_status_witness:
  \<open>sample_JSON_parse ''{"type":"system_started","data":{"is_running":true}}''
     = Some (JObj [(''type'', JStr ''system_started''),
                   (''data'', JObj [(''is_running'', JBool True)])])
   \<and> onmessage sample_JSON_parse rejecting_gateway
         ''{"type":"system_started","data":{"is_running":true}}'' initial_world
       = Inr (initial_world\<lparr>systemStatus := JObj [(''is_running'', JBool True)]\<rparr>)\<close>
proof -
  let ?d = "JObj [(''type'', JStr ''system_started''), (''data'', JObj [(''is_running'', JBool True)])]"
  have p: \<open>sample_JSON_parse ''{"type":"system_started","data":{"is_running":true}}'' = Some ?d\<close>
    by (simp add: sample_JSON_parse_def)
  have t: "get_prop ?d ''type'' = Inr (JStr ''system_started'')"
    by simp
  have k: "''system_started'' = ''system_status'' \<or> ''system_started'' = ''system_started''
           \<or> ''system_started'' = ''system_stopped''"
    by simp
  show ?thesis
    using p onmessage_system_status_replaced
            [where JSON_parse = sample_JSON_parse and gw = rejecting_gateway, OF p t k]
    by auto
qed

section \<open>Failed Gateway calls\<close>

text \<open>
  C8. Not every failed call is surfaced as a notification. With a Gateway that rejects,
  \<^verbatim>\<open>fetchBookings\<close> and \<^verbatim>\<open>fetchSystemStatus\<close> write a console line and show nothing:
  the message bar and the timers are as before. \<^verbatim>\<open>fetchApplicants\<close>, on the same
  Gateway, does show its error.
\<close>

theorem fetch_bookings_failure_not_notified:
  "get_bookings rejecting_gateway = Rejected None
   \<and> get_status rejecting_gateway = Rejected None
   \<and> fetchBookings rejecting_gateway initial_world
       = initial_world\<lparr>requests := [Get ''/bls/bookings''],
                         console := [ConsoleError ''Error fetching bookings:'']\<rparr>
   \<and> message (fetchBookings rejecting_gateway initial_world) = message initial_world
   \<and> timeouts (fetchBookings rejecting_gateway initial_world) = 0
   \<and> fetchSystemStatus rejecting_gateway initial_world
       = initial_world\<lparr>requests := [Get ''/bls/status''],
                         console := [ConsoleError ''Error fetching system status:'']\<rparr>
   \<and> message (fetchApplicants rejecting_gateway initial_world)
       = \<lparr>toast_text = ''Error fetching applicants'', toast_type = ''error''\<rparr>"
  by (simp add: fetchBookings_def fetchSystemStatus_def fetchApplicants_def Let_def issue_def
        showMessage_def console_error_def rejecting_gateway_def initial_world_def)

section \<open>Successful submission\<close>

text \<open>
  C9. \<^verbatim>\<open>handleBookAppointment\<close> never touches the bookings collection, whatever the
  verdict and the Gateway's answer, and neither does the form's submit event. When the
  verdict is valid and the Gateway resolves with a booking identifier, the one booking
  call carries the draft, the operator gets a success toast naming the identifier, and
  the loading flag is back to false.
\<close>

theorem submit_success_no_optimistic_insert:
  "bookings (handleBookAppointment gw w) = bookings w
   \<and> bookings (booking_form_submit gw w) = bookings w
   \<and> (is_valid (categoryValidation w)
        \<and> post_book_appointment gw (bookingForm w) = Resolved r \<longrightarrow>
      handleBookAppointment gw w
        = w\<lparr>requests := requests w @ [PostBookAppointment (bookingForm w)],
             message := \<lparr>toast_text = ''Appointment booking completed! ID: '' @ booking_id r,
                          toast_type = ''success''\<rparr>,
             timeouts := Suc (timeouts w), loading := False\<rparr>)"
  by (simp add: handleBookAppointment_def booking_form_submit_def Let_def issue_def
        showMessage_def console_error_def split: response.splits option.splits sum.splits
        bool.splits)

theorem submit_success_witness:
  "is_valid (categoryValidation loaded_world)
   \<and> post_book_appointment accepting_gateway (bookingForm loaded_world)
       = Resolved \<lparr>booking_id = ''BK-1''\<rparr>
   \<and> bookings (handleBookAppointment accepting_gateway loaded_world) = JArr []
   \<and> message (handleBookAppointment accepting_gateway loaded_world)
       = \<lparr>toast_text = ''Appointment booking completed! ID: BK-1'', toast_type = ''success''\<rparr>
   \<and> requests (handleBookAppointment accepting_gateway loaded_world)
       = [PostBookAppointment initial_bookingForm]"
proof -
  have v: "is_valid (categoryValidation loaded_world)"
    by (simp add: loaded_world_def initial_world_def)
  have r: "post_book_appointment accepting_gateway (bookingForm loaded_world)
             = Resolved \<lparr>booking_id = ''BK-1''\<rparr>"
    by (simp add: accepting_gateway_def)
  show ?thesis
    using v r submit_success_no_optimistic_insert
                [of accepting_gateway loaded_world "\<lparr>booking_id = ''BK-1''\<rparr>"]
    by (simp add: loaded_world_def initial_world_def)
qed

section \<open>The submit button\<close>

text \<open>The console the events lead to.\<close>

lemma stopped_modal_world_eq:
  "stopped_modal_world =
     loaded_world
       \<lparr>systemStatus := JObj [(''is_running'', JBool False)],
        message := \<lparr>toast_text = ''ORAN 1 requires no prior Schengen visa'', toast_type = ''error''\<rparr>,
        bookingForm := initial_bookingForm\<lparr>category := ''ORAN 2''\<rparr>,
        categoryValidation :=
          \<lparr>is_valid = True, validation_message = '''', recommended_categories = []\<rparr>,
        showValidationModal := True,
        requests :=
          [PostValidateCategory \<lparr>vr_location = ''Oran'', vr_category = ''ORAN 1'',
                                  vr_schengen_visa_history = ''never''\<rparr>,
           PostValidateCategory \<lparr>vr_location = ''Oran'', vr_category = ''ORAN 2'',
                                  vr_schengen_visa_history = ''never''\<rparr>],
        timeouts := 1\<rparr>"
  by (simp add: stopped_modal_world_def pushed_def onmessage_def onmessage_try_def
        sample_JSON_parse_def handleCategoryChange_def validateCategory_def
        booking_form_submit_def book_button_disabled_def handleBookAppointment_def
        picky_gateway_def accepting_gateway_def loaded_world_def initial_world_def
        initial_bookingForm_def Let_def issue_def showMessage_def)

text \<open>
  C10. The gate is on the submit button only. After the events that lead to
  \<open>stopped_modal_world\<close> the system is stopped, the "Book Appointment" button is
  disabled and submitting the form does nothing; the validation modal is still open, and
  its "Proceed Anyway" button, which reads neither the loading flag nor the status,
  issues the booking call.
\<close>

theorem proceed_anyway_books_while_stopped:
  "systemStatus stopped_modal_world = JObj [(''is_running'', JBool False)]
   \<and> book_button_disabled stopped_modal_world = Inr True
   \<and> booking_form_submit picky_gateway stopped_modal_world = stopped_modal_world
   \<and> showValidationModal stopped_modal_world
   \<and> requests (proceed_anyway_onClick picky_gateway stopped_modal_world)
       = requests stopped_modal_world
         @ [PostBookAppointment (initial_bookingForm\<lparr>category := ''ORAN 2''\<rparr>)]"
  by (simp add: stopped_modal_world_eq proceed_anyway_onClick_def handleBookAppointment_def
        booking_form_submit_def book_button_disabled_def picky_gateway_def accepting_gateway_def
        loaded_world_def initial_world_def Let_def issue_def showMessage_def)

text \<open>
  The submit button itself is gated: while a request is in flight, or while
  \<^verbatim>\<open>systemStatus.is_running\<close> is falsy, it is disabled and a submit of the form changes
  nothing.
\<close>

lemma booking_form_submit_gated:
  assumes "loading w \<or> (\<exists>v. get_prop (systemStatus w) ''is_running'' = Inr v \<and> \<not> truthy v)"
  shows "book_button_disabled w = Inr True \<and> booking_form_submit gw w = w"
  using assms by (auto simp add: book_button_disabled_def booking_form_submit_def)

text \<open>The handler behind "Proceed Anyway" reads neither the loading flag nor the status.\<close>

lemma proceed_anyway_ungated:
  assumes "showValidationModal w" and "is_valid (categoryValidation w)"
  shows "requests (proceed_anyway_onClick gw w) = requests w @ [PostBookAppointment (bookingForm w)]"
  using assms
  by (simp add: proceed_anyway_onClick_def handleBookAppointment_def Let_def issue_def
        showMessage_def console_error_def split: response.splits option.splits)

section \<open>Changing the location\<close>

text \<open>
  Selecting the location without categories: the category falls back to \<^verbatim>\<open>ORAN 1\<close>,
  which is not in that location's (empty) list; no notification is shown and nothing is
  logged; and the validator is asked about the location of the previous render.
\<close>

theorem location_change_empty_list_counterexample:
  "visaInfo loaded_world = Some sample_visa_info
   \<and> location_categories sample_visa_info ''Adrar'' = []
   \<and> category (bookingForm (handleLocationChange accepting_gateway ''Adrar'' loaded_world)) = ''ORAN 1''
   \<and> category (bookingForm (handleLocationChange accepting_gateway ''Adrar'' loaded_world))
       \<notin> set (location_categories sample_visa_info ''Adrar'')
   \<and> message (handleLocationChange accepting_gateway ''Adrar'' loaded_world) = message loaded_world
   \<and> console (handleLocationChange accepting_gateway ''Adrar'' loaded_world) = []
   \<and> requests (handleLocationChange accepting_gateway ''Adrar'' loaded_world)
       = [PostValidateCategory \<lparr>vr_location = ''Oran'', vr_category = ''ORAN 1'',
                                vr_schengen_visa_history = ''never''\<rparr>]"
  by (simp add: handleLocationChange_def validateCategory_def location_categories_def
        sample_visa_info_def loaded_world_def initial_world_def initial_bookingForm_def
        accepting_gateway_def Let_def issue_def)

lemma validateCategory_world:
  "validateCategory gw f c h w =
     (let req = \<lparr>vr_location = location f, vr_category = c, vr_schengen_visa_history = h\<rparr>;
          w1 = w\<lparr>requests := requests w @ [PostValidateCategory req]\<rparr>
      in case post_validate_category gw req of
           Resolved v \<Rightarrow>
             if is_valid v then w1\<lparr>categoryValidation := v\<rparr>
             else w1\<lparr>categoryValidation := v,
                     message := \<lparr>toast_text = validation_message v, toast_type = ''error''\<rparr>,
                     timeouts := Suc (timeouts w)\<rparr>
         | Rejected e \<Rightarrow> w1\<lparr>console := console w @ [ConsoleError ''Error validating category:'']\<rparr>)"
  by (simp add: validateCategory_def Let_def issue_def showMessage_def console_error_def
        split: response.splits)

text \<open>
  C3, as the code has it. Once the visa information is loaded, a location change sets the
  location and resets the category to the first entry of the new location's list when
  that list is not empty and its first entry is not the empty string; the category is
  then a member of the list. Otherwise the category is \<^verbatim>\<open>ORAN 1\<close>. In both cases one
  call to the validator follows, with the new category and the current history, and the
  handler signals nothing of its own: apart from the draft and the request log, the
  console changes only by the validator's answer (the verdict; an error toast with the
  verdict's message when it is invalid; a console line when the call fails).
\<close>

theorem location_change_resets_category:
  assumes "visaInfo w = Some vi"
  shows "\<exists>l. let newCategory =
                   (case location_categories vi loc of
                      [] \<Rightarrow> ''ORAN 1''
                    | c # cs \<Rightarrow> if c \<noteq> [] then c else ''ORAN 1'');
                 req = \<lparr>vr_location = l, vr_category = newCategory,
                        vr_schengen_visa_history = schengen_visa_history (bookingForm w)\<rparr>;
                 w1 = w\<lparr>bookingForm := (bookingForm w)\<lparr>location := loc, category := newCategory\<rparr>,
                        requests := requests w @ [PostValidateCategory req]\<rparr>
             in handleLocationChange gw loc w
                  = (case post_validate_category gw req of
                       Resolved v \<Rightarrow>
                         if is_valid v then w1\<lparr>categoryValidation := v\<rparr>
                         else w1\<lparr>categoryValidation := v,
                                 message := \<lparr>toast_text = validation_message v,
                                              toast_type = ''error''\<rparr>,
                                 timeouts := Suc (timeouts w)\<rparr>
                     | Rejected e \<Rightarrow>
                         w1\<lparr>console := console w @ [ConsoleError ''Error validating category:'']\<rparr>)
                \<and> (location_categories vi loc \<noteq> [] \<and> hd (location_categories vi loc) \<noteq> [] \<longrightarrow>
                     newCategory = hd (location_categories vi loc)
                     \<and> newCategory \<in> set (location_categories vi loc))"
proof -
  define nc where "nc = (case location_categories vi loc of
                           [] \<Rightarrow> ''ORAN 1''
                         | c # cs \<Rightarrow> if c \<noteq> [] then c else ''ORAN 1'')"
  have m: "location_categories vi loc \<noteq> [] \<and> hd (location_categories vi loc) \<noteq> [] \<longrightarrow>
             nc = hd (location_categories vi loc) \<and> nc \<in> set (location_categories vi loc)"
    by (auto simp add: nc_def split: list.splits)
  have "handleLocationChange gw loc w
          = validateCategory gw (bookingForm w) nc (schengen_visa_history (bookingForm w))
              (w\<lparr>bookingForm := (bookingForm w)\<lparr>location := loc, category := nc\<rparr>\<rparr>)"
    using assms by (simp add: handleLocationChange_def Let_def nc_def)
  then show ?thesis
    using m unfolding nc_def [symmetric]
    by (intro exI [of _ "location (bookingForm w)"])
       (simp add: validateCategory_world Let_def split: response.splits)
qed

theorem location_change_witness:
  "visaInfo loaded_world = Some sample_visa_info
   \<and> location_categories sample_visa_info ''Alger'' = [''ALG 1'', ''ALG 2'']
   \<and> location (bookingForm (handleLocationChange accepting_gateway ''Alger'' loaded_world)) = ''Alger''
   \<and> category (bookingForm (handleLocationChange accepting_gateway ''Alger'' loaded_world)) = ''ALG 1''
   \<and> length (requests (handleLocationChange accepting_gateway ''Alger'' loaded_world)) = 1
   \<and> message (handleLocationChange accepting_gateway ''Alger'' loaded_world) = message loaded_world
   \<and> timeouts (handleLocationChange accepting_gateway ''Alger'' loaded_world) = 0
   \<and> console (handleLocationChange accepting_gateway ''Alger'' loaded_world) = []
   \<and> location_categories sample_visa_info ''Adrar'' = []
   \<and> category (bookingForm (handleLocationChange accepting_gateway ''Adrar'' loaded_world)) = ''ORAN 1''
   \<and> message (handleLocationChange accepting_gateway ''Adrar'' loaded_world) = message loaded_world
   \<and> timeouts (handleLocationChange accepting_gateway ''Adrar'' loaded_world) = 0
   \<and> console (handleLocationChange accepting_gateway ''Adrar'' loaded_world) = []"
proof -
  have v: "visaInfo loaded_world = Some sample_visa_info"
    by (simp add: loaded_world_def)
  have c: "location_categories sample_visa_info ''Alger'' = [''ALG 1'', ''ALG 2'']"
          "location_categories sample_visa_info ''Adrar'' = []"
    by (simp_all add: location_categories_def sample_visa_info_def)
  have r: "requests loaded_world = []" "timeouts loaded_world = 0" "console loaded_world = []"
    by (simp_all add: loaded_world_def initial_world_def)
  have a: "post_validate_category accepting_gateway q
             = Resolved \<lparr>is_valid = True, validation_message = '''', recommended_categories = []\<rparr>" for q
    by (simp add: accepting_gateway_def)
  show ?thesis
    using v c r location_change_resets_category [OF v, of "''Alger''" accepting_gateway]
      location_change_resets_category [OF v, of "''Adrar''" accepting_gateway]
    by (auto simp add: Let_def a)
qed

section \<open>The number of members\<close>

lemma bit_length_upper: "m < 2 ^ bit_length m"
proof (induction m rule: bit_length.induct)
  case (1 m)
  show ?case
  proof (cases "m = 0")
    case True
    then show ?thesis by (simp add: bit_length.simps)
  next
    case False
    then have "m div 2 < 2 ^ bit_length (m div 2)"
      using "1.IH" by simp
    moreover have "bit_length m = Suc (bit_length (m div 2))"
      using False by (subst bit_length.simps) simp
    ultimately show ?thesis by simp
  qed
qed

lemma bit_length_lower: "m \<noteq> 0 \<Longrightarrow> 2 ^ (bit_length m - 1) \<le> m"
proof (induction m rule: bit_length.induct)
  case (1 m)
  have bl: "bit_length m = Suc (bit_length (m div 2))"
    using "1.prems" by (subst bit_length.simps) simp
  show ?case
  proof (cases "m div 2 = 0")
    case True
    then have "bit_length (m div 2) = 0"
      by (simp add: bit_length.simps)
    then show ?thesis using bl "1.prems" by simp
  next
    case False
    then have ih: "2 ^ (bit_length (m div 2) - 1) \<le> m div 2"
      using "1.IH" "1.prems" by simp
    have pos: "0 < bit_length (m div 2)"
      using False by (subst bit_length.simps) simp
    have "(2::nat) ^ (bit_length m - 1) = 2 * 2 ^ (bit_length (m div 2) - 1)"
      using bl pos by (cases "bit_length (m div 2)") simp_all
    also have "\<dots> \<le> 2 * (m div 2)"
      using ih by simp
    also have "\<dots> \<le> m"
      by simp
    finally show ?thesis .
  qed
qed

lemma round_to_double_small: "m < 2 ^ 53 \<Longrightarrow> round_to_double m = Some m"
  by (simp add: round_to_double_def)

text \<open>A number from \<open>2^53\<close> on is rounded to a number that is at least \<open>2^52\<close>.\<close>

lemma round_to_double_large:
  assumes "\<not> m < 2 ^ 53" and "round_to_double m = Some v"
  shows "2 ^ 52 \<le> v"
proof -
  define e where "e = bit_length m - 53"
  define q where "q = m div 2 ^ e"
  have "(2::nat) ^ 53 \<le> m" using assms(1) by simp
  also have "m < 2 ^ bit_length m" by (rule bit_length_upper)
  finally have "53 < bit_length m"
    by (simp only: power_strict_increasing_iff [of 2, simplified] one_less_numeral_iff semiring_norm
          power_strict_increasing_iff)
  then have bl: "bit_length m - 1 = 52 + e"
    by (simp add: e_def)
  have "m \<noteq> 0" using assms(1) by auto
  then have "(2::nat) ^ (52 + e) \<le> m"
    using bit_length_lower [of m] bl by simp
  then have "(2 ^ 52 * 2 ^ e) div 2 ^ e \<le> m div 2 ^ e"
    by (intro div_le_mono) (simp add: power_add)
  then have q: "2 ^ 52 \<le> q"
    by (simp add: q_def)
  define q' where "q' = (if 2 ^ (e - 1) < m mod 2 ^ e \<or> (m mod 2 ^ e = 2 ^ (e - 1) \<and> odd q)
                          then q + 1 else q)"
  have "round_to_double m = (if 2 ^ 1024 \<le> q' * 2 ^ e then None else Some (q' * 2 ^ e))"
    unfolding round_to_double_def Let_def e_def q_def q'_def using assms(1) by simp
  then have v: "v = q' * 2 ^ e"
    using assms(2) by (simp split: if_splits)
  have "q \<le> q'"
    by (simp add: q'_def)
  then have "q * 2 ^ e \<le> v"
    using v by simp
  moreover have "q \<le> q * 2 ^ e"
    by simp
  ultimately show ?thesis using q by linarith
qed

lemma to_number_exact: "n < 2 ^ 53 \<Longrightarrow> to_number 1 n = Num (int n)"
  by (simp add: to_number_def round_to_double_small)

lemma spec_member_range_to_number:
  "spec_member_range (to_number 1 n) \<longleftrightarrow> 1 \<le> n \<and> n \<le> 10"
proof (cases "n < 2 ^ 53")
  case True
  then show ?thesis by (simp add: to_number_exact spec_member_range_def)
next
  case False
  then have big: "\<not> n \<le> 10" by simp
  have "\<not> spec_member_range (to_number 1 n)"
  proof (cases "round_to_double n")
    case None
    then show ?thesis using False by (simp add: to_number_def spec_member_range_def)
  next
    case (Some v)
    then have "2 ^ 52 \<le> v" using False by (rule_tac round_to_double_large)
    then have "\<not> int v \<le> 10" by simp
    then show ?thesis using Some False by (simp add: to_number_def spec_member_range_def)
  qed
  then show ?thesis using big by simp
qed

lemma digit_value_digit_char: "d < 10 \<Longrightarrow> digit_value (digit_char d) = Some d"
  by (simp add: digit_value_def digit_char_def)

lemma is_digit_of_digit_char: "d < 10 \<Longrightarrow> is_digit_of 10 (digit_char d)"
  by (simp add: is_digit_of_def digit_value_digit_char)

lemma decimal_small: "n < 10 \<Longrightarrow> decimal n = [digit_char n]"
  by (subst decimal.simps) simp

lemma decimal_large: "\<not> n < 10 \<Longrightarrow> decimal n = decimal (n div 10) @ [digit_char (n mod 10)]"
  by (subst decimal.simps) simp

lemma decimal_chars: "c \<in> set (decimal n) \<Longrightarrow> \<exists>d<10. c = digit_char d"
proof (induction n rule: decimal.induct)
  case (1 n)
  show ?case
  proof (cases "n < 10")
    case True
    with "1.prems" show ?thesis by (auto simp add: decimal_small)
  next
    case False
    with "1.prems" have "c \<in> set (decimal (n div 10)) \<or> c = digit_char (n mod 10)"
      by (auto simp add: decimal_large)
    then show ?thesis
    proof
      assume "c \<in> set (decimal (n div 10))"
      with "1.IH" False show ?thesis by blast
    next
      assume "c = digit_char (n mod 10)"
      moreover have "n mod 10 < 10" by simp
      ultimately show ?thesis by blast
    qed
  qed
qed

lemma decimal_not_Nil: "decimal n \<noteq> []"
  by (cases "n < 10") (simp_all add: decimal_small decimal_large)

lemma digits_value_snoc:
  "digits_value r (ds @ [c])
     = digits_value r ds * r + (case digit_value c of None \<Rightarrow> 0 | Some d \<Rightarrow> d)"
  by (simp add: digits_value_def)

lemma digits_value_decimal: "digits_value 10 (decimal n) = n"
proof (induction n rule: decimal.induct)
  case (1 n)
  show ?case
  proof (cases "n < 10")
    case True
    then show ?thesis by (simp add: decimal_small digits_value_def digit_value_digit_char)
  next
    case False
    then have "decimal n = decimal (n div 10) @ [digit_char (n mod 10)]"
      by (rule decimal_large)
    moreover have "digits_value 10 (decimal (n div 10)) = n div 10"
      using "1.IH" False by simp
    ultimately show ?thesis
      by (simp add: digits_value_snoc digit_value_digit_char)
  qed
qed

lemma takeWhile_decimal: "takeWhile (is_digit_of 10) (decimal n) = decimal n"
proof -
  have "\<forall>c \<in> set (decimal n). is_digit_of 10 c"
    using decimal_chars is_digit_of_digit_char by blast
  then show ?thesis by simp
qed

lemma digit_char_plain:
  assumes "d < 10"
  shows "\<not> is_white_space (digit_char d)" and "digit_char d \<noteq> 0x2D"
    and "digit_char d \<noteq> 0x2B" and "digit_char d \<noteq> 0x78" and "digit_char d \<noteq> 0x58"
  using assms by (simp_all add: digit_char_def is_white_space_def)

lemma parseInt_all_digits:
  assumes "s \<noteq> []" and "\<forall>c \<in> set s. \<exists>d<10. c = digit_char d"
  shows "parseInt s = parse_digits 10 s 1"
proof -
  obtain c0 rest where s: "s = c0 # rest"
    using assms(1) by (cases s) auto
  obtain d0 where d0: "d0 < 10" "c0 = digit_char d0"
    using assms(2) s by auto
  have dw: "dropWhile is_white_space s = s"
    using s d0 digit_char_plain(1) by simp
  have sp: "strip_prefix_0x s = (10, s)"
  proof (cases rest)
    case Nil
    then show ?thesis using s by (simp add: strip_prefix_0x_def)
  next
    case (Cons c1 rest')
    then obtain d1 where "d1 < 10" "c1 = digit_char d1"
      using assms(2) s by auto
    then have "c1 \<noteq> 0x78" "c1 \<noteq> 0x58"
      using digit_char_plain by auto
    then show ?thesis using s Cons by (simp add: strip_prefix_0x_def)
  qed
  have sg: "c0 \<noteq> 0x2D" "c0 \<noteq> 0x2B"
    using d0 digit_char_plain by auto
  show ?thesis
    unfolding parseInt_def dw using s sg sp by (simp add: Let_def)
qed

text \<open>
  \<^verbatim>\<open>parseInt\<close> reads a decimal numeral back as the double nearest to the number it
  denotes.
\<close>

lemma parseInt_decimal: "parseInt (decimal n) = to_number 1 n"
proof -
  have "parseInt (decimal n) = parse_digits 10 (decimal n) 1"
    using decimal_not_Nil decimal_chars by (intro parseInt_all_digits) auto
  then show ?thesis
    by (simp add: parse_digits_def takeWhile_decimal decimal_not_Nil digits_value_decimal)
qed

lemma decimal_15: "decimal 15 = utf16 ''15''"
  by (simp add: decimal_large decimal_small digit_char_def utf16_def)

text \<open>
  Beyond \<open>2^53\<close> the result is the nearest double, and white space outside ASCII is
  skipped.
\<close>

lemma parseInt_rounds_to_double:
  "parseInt (utf16 ''9007199254740993'') = Num 9007199254740992"
  by (simp add: utf16_def parseInt_def parse_digits_def strip_prefix_0x_def is_white_space_def
        is_digit_of_def digit_value_def digits_value_def to_number_def round_to_double_def Let_def
        bit_length.simps)

lemma parseInt_skips_no_break_space: "parseInt (0xA0 # 0xFEFF # utf16 ''7'') = Num 7"
  by (simp add: utf16_def parseInt_def parse_digits_def strip_prefix_0x_def is_white_space_def
        is_digit_of_def digit_value_def digits_value_def to_number_def round_to_double_def Let_def)

text \<open>
  Setting the appointment to Family and entering 15: the draft holds 15, outside
  \<open>[1,10]\<close>.
\<close>

theorem number_of_members_not_clamped_counterexample:
  "appointment_for (bookingForm (appointment_for_onChange ''Family'' loaded_world)) = ''Family''
   \<and> number_of_members (bookingForm (number_of_members_onChange (utf16 ''15'')
        (appointment_for_onChange ''Family'' loaded_world))) = Num 15
   \<and> \<not> spec_member_range (number_of_members (bookingForm (number_of_members_onChange (utf16 ''15'')
        (appointment_for_onChange ''Family'' loaded_world))))"
  by (simp add: number_of_members_onChange_def appointment_for_onChange_def loaded_world_def
        initial_world_def initial_bookingForm_def utf16_def parseInt_def parse_digits_def
        strip_prefix_0x_def is_white_space_def is_digit_of_def digit_value_def digits_value_def
        to_number_def round_to_double_def spec_member_range_def Let_def)

text \<open>
  C4, as the code has it. While the appointment is for a Family, a change of the number of
  members stores \<^verbatim>\<open>parseInt\<close> of the entered text and changes nothing else; nothing is
  clamped. Entering the decimal numeral of a natural number \<open>n\<close> below \<open>2^53\<close> puts
  \<open>n\<close> in the draft (a longer numeral gives the nearest double), and for every natural
  number the stored value is in \<open>[1,10]\<close> exactly when the entered number is.
\<close>

theorem number_of_members_stored_as_entered:
  assumes "appointment_for (bookingForm w) = ''Family''"
  shows "number_of_members_onChange target_value w
           = w\<lparr>bookingForm := (bookingForm w)\<lparr>number_of_members := parseInt target_value\<rparr>\<rparr>
       \<and> (n < 2 ^ 53 \<longrightarrow>
            number_of_members (bookingForm (number_of_members_onChange (decimal n) w))
              = Num (int n))
       \<and> (spec_member_range
            (number_of_members (bookingForm (number_of_members_onChange (decimal n) w)))
            \<longleftrightarrow> 1 \<le> n \<and> n \<le> 10)"
  using assms
  by (simp add: number_of_members_onChange_def parseInt_decimal to_number_exact
        spec_member_range_to_number)

theorem number_of_members_stored_witness:
  "appointment_for (bookingForm (appointment_for_onChange ''Family'' loaded_world)) = ''Family''
   \<and> decimal 15 = utf16 ''15''
   \<and> (15::nat) < 2 ^ 53
   \<and> number_of_members (bookingForm (number_of_members_onChange (utf16 ''15'')
        (appointment_for_onChange ''Family'' loaded_world))) = Num 15"
proof -
  have f: "appointment_for (bookingForm (appointment_for_onChange ''Family'' loaded_world)) = ''Family''"
    by (simp add: appointment_for_onChange_def)
  have b: "(15::nat) < 2 ^ 53"
    by simp
  have "number_of_members (bookingForm (number_of_members_onChange (decimal 15)
          (appointment_for_onChange ''Family'' loaded_world))) = Num (int 15)"
    using b number_of_members_stored_as_entered [OF f, of "utf16 ''15''" 15] by blast
  then show ?thesis
    using f b by (simp add: decimal_15)
qed

end
